theory Spec2Isabelle
  imports Complex_Main "HOL-Library.Multiset"
begin

section \<open>Low Cost Groceries: the client-side workflow controller (src/app.js)\<close>

text \<open>
  The script keeps one global \<^verbatim>\<open>state\<close> object and one global \<^verbatim>\<open>pollCount\<close>, and it
  talks to the browser: interval timers, toasts, network requests, a few input fields and
  the progress bar. All of that is one record here, passed in and returned updated. An
  \<^verbatim>\<open>async\<close> function is split where it awaits the network: the part that runs up to the
  \<^verbatim>\<open>fetch\<close> (suffix \<open>_begin\<close>) and the part that runs when the response is there (suffix
  \<open>_resolve\<close>), which takes the response as an argument. Everything between two awaits
  runs to completion, as the single-threaded event loop has it. What only draws from the
  state (\<^verbatim>\<open>renderCart\<close>, \<^verbatim>\<open>renderPendingSuggestions\<close>, the job id shown, focus and
  scrolling, the toast's own timeout) changes none of it and is left out.

  Strings are \<^typ>\<open>string\<close>. Prices are JavaScript numbers; the model takes them finite
  (no NaN, no infinity), where \<^verbatim>\<open>a.price - b.price\<close> has the sign of the exact
  difference and \<^verbatim>\<open>===\<close> is equality, so \<^typ>\<open>rat\<close> stands for them. Server data is taken
  well typed, as the backend contract gives it. Names and texts are kept as text: markup
  inside a name, which \<^verbatim>\<open>innerHTML\<close> would parse, is not followed.
\<close>

subsection \<open>Configuration\<close>

definition MAX_ITEMS :: nat where
  "MAX_ITEMS = 10"

definition POLL_INTERVAL :: nat where
  "POLL_INTERVAL = 2000"

definition MIN_ZIP_LENGTH :: nat where
  "MIN_ZIP_LENGTH = 5"

subsection \<open>Data\<close>

text \<open>A cart entry is the object \<^verbatim>\<open>{ name }\<close>.\<close>

record cartItem =
  name :: string

text \<open>
  The clarify endpoint's answer: \<^verbatim>\<open>data.suggested.name\<close> when \<^verbatim>\<open>data.suggested\<close> is there,
  and the names of \<^verbatim>\<open>data.alternatives\<close> (none when the field is absent).
\<close>

record suggestionData =
  suggested :: "string option"
  alternatives :: "string list"

datatype pendingStatus = Loading | Complete | Error

text \<open>
  A pending item \<^verbatim>\<open>{ id, originalText, status, suggestions }\<close>; the id is \<^verbatim>\<open>Date.now()\<close>,
  a number of milliseconds.
\<close>

record pendingItem =
  pending_id :: int
  originalText :: string
  status :: pendingStatus
  suggestions :: "suggestionData option"

record product =
  product_name :: "string option"
  title :: "string option"
  merchant :: string
  price :: rat
  location :: "string option"

text \<open>
  The body of \<^verbatim>\<open>GET /api/results/{jobId}\<close>. The results object is an association list:
  its own keys are the first components, a key's value is the first pair that has it.
\<close>

record pollData =
  job_status :: string
  queue_position :: "nat option"
  results :: "(string \<times> product list) list option"
  zip_code :: "string option"
  total_time :: "rat option"

text \<open>
  What a \<^verbatim>\<open>fetch\<close> followed by \<^verbatim>\<open>response.json()\<close> can give: the promise rejects
  (\<open>NetworkError\<close>), the status is not 2xx (\<open>HttpError\<close>), or there is a body.
\<close>

datatype 'a response = NetworkError | HttpError | Ok 'a

datatype request =
  ClarifyRequest string "string list"
| CartRequest "string list" string bool
| ResultsRequest "string option"

datatype loadingText = JobQueued | Processing | Queued "nat option"

text \<open>
  The results page as \<^verbatim>\<open>displayResults\<close> builds it: the markup is kept as its structure.
  A card is the cart item's name and either the placeholder, the single best-price row,
  or the expanded first row with the toggle's count, the card's index and the rows hidden
  behind the toggle.
\<close>

datatype resultBody =
  NoProductsFound
| BestSingle product rat
| BestMultiple product rat nat nat "product list"

datatype resultCard = ResultCard string resultBody

record resultsView =
  itemsFoundCount :: nat
  zipDisplay :: "string option"
  totalItems :: nat
  totalProducts :: nat
  processingTime :: "rat option"
  resultsTable :: "resultCard list"

text \<open>
  The fields of \<^verbatim>\<open>state\<close>, the counter \<^verbatim>\<open>pollCount\<close>, and the browser: the interval timers
  that are active and the next handle \<^verbatim>\<open>setInterval\<close> gives out, the toasts shown, the
  requests sent, the two text inputs, the toggle, the progress bar's width in percent,
  the status line and the results page.
\<close>

record app =
  cart :: "cartItem list"
  currentStep :: nat
  jobId :: "string option"
  pollInterval :: "nat option"
  zipCode :: "string option"
  pendingSuggestions :: "pendingItem list"
  pollCount :: nat
  timers :: "nat list"
  nextTimer :: nat
  toasts :: "string list"
  requests :: "request list"
  itemInput :: string
  zipInput :: string
  prioritizeNearbyToggle :: bool
  progressFill :: nat
  loadingStatus :: "loadingText option"
  resultsPage :: "resultsView option"

definition initial :: app where
  "initial = \<lparr> cart = [], currentStep = 1, jobId = None, pollInterval = None,
     zipCode = None, pendingSuggestions = [], pollCount = 0, timers = [], nextTimer = 1,
     toasts = [], requests = [], itemInput = [], zipInput = [],
     prioritizeNearbyToggle = False, progressFill = 0, loadingStatus = None,
     resultsPage = None \<rparr>"

subsection \<open>Utilities\<close>

definition showToast :: "string \<Rightarrow> app \<Rightarrow> app" where
  "showToast message s = s\<lparr>toasts := toasts s @ [message]\<rparr>"

definition goToStep :: "nat \<Rightarrow> app \<Rightarrow> app" where
  "goToStep stepNumber s = s\<lparr>currentStep := stepNumber\<rparr>"

text \<open>
  \<^verbatim>\<open>setInterval\<close> makes a new timer active and returns its handle; \<^verbatim>\<open>clearInterval\<close>
  stops the timer of a handle and does nothing for \<^verbatim>\<open>null\<close> or a stopped one.
\<close>

definition setInterval :: "app \<Rightarrow> nat \<times> app" where
  "setInterval s = (nextTimer s, s\<lparr>timers := timers s @ [nextTimer s], nextTimer := Suc (nextTimer s)\<rparr>)"

definition clearInterval :: "nat option \<Rightarrow> app \<Rightarrow> app" where
  "clearInterval h s = (case h of None \<Rightarrow> s | Some t \<Rightarrow> s\<lparr>timers := removeAll t (timers s)\<rparr>)"

text \<open>\<^verbatim>\<open>String.prototype.trim\<close> on code units below 256.\<close>

definition isWhiteSpace :: "char \<Rightarrow> bool" where
  "isWhiteSpace c = (of_char c \<in> {9, 10, 11, 12, 13, 32, 160 :: nat})"

definition trim :: "string \<Rightarrow> string" where
  "trim v = rev (dropWhile isWhiteSpace (rev (dropWhile isWhiteSpace v)))"

subsection \<open>Step 1: cart building\<close>

definition addToCart :: "string \<Rightarrow> app \<Rightarrow> app" where
  "addToCart n s =
     (if list_ex (\<lambda>item. name item = n) (cart s) then showToast ''Item already in cart!'' s
      else if length (cart s) \<ge> MAX_ITEMS then showToast ''Maximum 10 items allowed'' s
      else showToast ''Added to cart!'' (s\<lparr>cart := cart s @ [\<lparr>name = n\<rparr>]\<rparr>))"

text \<open>\<^verbatim>\<open>splice(index, 1)\<close> with the index of a rendered row; past the end it removes nothing.\<close>

definition removeFromCart :: "nat \<Rightarrow> app \<Rightarrow> app" where
  "removeFromCart index s =
     showToast ''Removed from cart'' (s\<lparr>cart := take index (cart s) @ drop (Suc index) (cart s)\<rparr>)"

definition clearCart :: "bool \<Rightarrow> app \<Rightarrow> app" where
  "clearCart confirmed s = (if confirmed then s\<lparr>cart := []\<rparr> else s)"




text \<open>
  \<^verbatim>\<open>fetchSuggestions\<close> once the response is there. Its \<^verbatim>\<open>try\<close> catches every failure, so
  the promise it returns always resolves: \<open>Inr\<close> is the resolved value (\<open>None\<close> for
  \<^verbatim>\<open>null\<close>), \<open>Inl\<close> a rejection.
\<close>

definition fetchSuggestions_begin :: "string \<Rightarrow> app \<Rightarrow> app" where
  "fetchSuggestions_begin item s =
     s\<lparr>requests := requests s @ [ClarifyRequest item (map name (cart s))]\<rparr>"

definition fetchSuggestions_resolve :: "suggestionData response \<Rightarrow> app \<Rightarrow> (unit + suggestionData option) \<times> app" where
  "fetchSuggestions_resolve r s =
     (case r of
        Ok data \<Rightarrow> (Inr (Some data), s)
      | _ \<Rightarrow> (Inr None, showToast ''Failed to get AI suggestions. Try again!'' s))"

text \<open>
  \<^verbatim>\<open>find\<close> and the assignment to the item found: the first item with the id is updated in
  place.
\<close>

fun updateFirst :: "int \<Rightarrow> (pendingItem \<Rightarrow> pendingItem) \<Rightarrow> pendingItem list \<Rightarrow> pendingItem list" where
  "updateFirst i f [] = []"
| "updateFirst i f (p # ps) = (if pending_id p = i then f p # ps else p # updateFirst i f ps)"

definition submitItemForAI_begin :: "int \<Rightarrow> string \<Rightarrow> app \<Rightarrow> app" where
  "submitItemForAI_begin now text0 s =
     (if length text0 < 2 then s
      else
        let pendingId = now;
            pendingItem = \<lparr>pending_id = pendingId, originalText = text0, status = Loading,
                            suggestions = None\<rparr>;
            s1 = s\<lparr>pendingSuggestions := pendingSuggestions s @ [pendingItem]\<rparr>;
            s2 = s1\<lparr>itemInput := []\<rparr>
        in fetchSuggestions_begin text0 s2)"

definition submitItemForAI_resolve :: "int \<Rightarrow> suggestionData response \<Rightarrow> app \<Rightarrow> app" where
  "submitItemForAI_resolve pendingId r s =
     (case fetchSuggestions_resolve r s of
        (Inr sugg, s1) \<Rightarrow>
          s1\<lparr>pendingSuggestions :=
               updateFirst pendingId (\<lambda>item. item\<lparr>status := Complete, suggestions := sugg\<rparr>)
                 (pendingSuggestions s1)\<rparr>
      | (Inl _, s1) \<Rightarrow>
          s1\<lparr>pendingSuggestions :=
               updateFirst pendingId (\<lambda>item. item\<lparr>status := Error\<rparr>) (pendingSuggestions s1)\<rparr>)"

text \<open>The Enter key in the item input, and the click on the manual button.\<close>

definition itemInput_keypress :: "string \<Rightarrow> int \<Rightarrow> app \<Rightarrow> app" where
  "itemInput_keypress key now s =
     (if key = ''Enter'' then
        (let v = trim (itemInput s)
         in if length v \<ge> 2 then submitItemForAI_begin now v s else s)
      else s)"

definition addManualBtn_click :: "int \<Rightarrow> app \<Rightarrow> app" where
  "addManualBtn_click now s =
     (let v = trim (itemInput s)
      in if length v \<ge> 2 then submitItemForAI_begin now v s else s)"

subsection \<open>Steps 2 and 3: submitting the cart and polling\<close>

definition pollResults_begin :: "app \<Rightarrow> app" where
  "pollResults_begin s =
     (let s1 = s\<lparr>pollCount := Suc (pollCount s)\<rparr>;
          progress = min (pollCount s1 * 10) 90;
          s2 = s1\<lparr>progressFill := progress\<rparr>
      in s2\<lparr>requests := requests s2 @ [ResultsRequest (jobId s2)]\<rparr>)"

definition startPolling :: "app \<Rightarrow> app" where
  "startPolling s =
     (let s1 = s\<lparr>pollCount := 0\<rparr>;
          (h, s2) = setInterval s1;
          s3 = s2\<lparr>pollInterval := Some h\<rparr>
      in pollResults_begin s3)"

definition submitCart_begin :: "app \<Rightarrow> app" where
  "submitCart_begin s =
     (let s1 = s\<lparr>zipCode := Some (zipInput s)\<rparr>;
          prioritizeNearby = prioritizeNearbyToggle s1;
          s2 = goToStep 3 s1
      in s2\<lparr>requests := requests s2 @
              [CartRequest (map name (cart s2)) (zipInput s) prioritizeNearby]\<rparr>)"

text \<open>
  The body of a successful submission is its \<^verbatim>\<open>job_id\<close>; without one,
  \<^verbatim>\<open>data.job_id.substring\<close> throws after the assignment to \<^verbatim>\<open>state.jobId\<close>.
\<close>

definition submitCart_catch :: "app \<Rightarrow> app" where
  "submitCart_catch s = goToStep 2 (showToast ''Failed to submit cart. Please try again.'' s)"

definition submitCart_resolve :: "string option response \<Rightarrow> app \<Rightarrow> app" where
  "submitCart_resolve r s =
     (case r of
        Ok (Some job_id) \<Rightarrow>
          startPolling (s\<lparr>jobId := Some job_id, loadingStatus := Some JobQueued\<rparr>)
      | Ok None \<Rightarrow> submitCart_catch (s\<lparr>jobId := None\<rparr>)
      | _ \<Rightarrow> submitCart_catch s)"

subsection \<open>Step 4: the results page\<close>

text \<open>
  \<^verbatim>\<open>[...products].sort(cmp)\<close>: a stable sort by the comparator, here by insertion from
  the right, which puts an element before the first one it does not come after.
\<close>

fun insort_cmp :: "('a \<Rightarrow> 'a \<Rightarrow> rat) \<Rightarrow> 'a \<Rightarrow> 'a list \<Rightarrow> 'a list" where
  "insort_cmp cmp x [] = [x]"
| "insort_cmp cmp x (y # ys) = (if cmp x y \<le> 0 then x # y # ys else y # insort_cmp cmp x ys)"

definition sort_cmp :: "('a \<Rightarrow> 'a \<Rightarrow> rat) \<Rightarrow> 'a list \<Rightarrow> 'a list" where
  "sort_cmp cmp xs = foldr (insort_cmp cmp) xs []"

definition byPrice :: "product \<Rightarrow> product \<Rightarrow> rat" where
  "byPrice a b = price a - price b"

text \<open>
  A property read \<^verbatim>\<open>results[k]\<close> on the object that \<^verbatim>\<open>response.json()\<close> made. An own key
  gives its product list. Any other name is looked up in \<^verbatim>\<open>Object.prototype\<close>, which the
  object inherits from: its methods are functions, each with its \<^verbatim>\<open>length\<close> (the number
  of its formal parameters), and \<^verbatim>\<open>__proto__\<close> reads as \<^verbatim>\<open>Object.prototype\<close> itself, an
  object without a \<^verbatim>\<open>length\<close>. A name found in neither reads as \<^verbatim>\<open>undefined\<close>.
\<close>

datatype exn = TypeError

datatype propValue =
  Undefined
| ProductList "product list"
| InheritedFunction nat
| InheritedObject

definition objectPrototype :: "(string \<times> propValue) list" where
  "objectPrototype =
     [(''constructor'', InheritedFunction 1),
      (''hasOwnProperty'', InheritedFunction 1),
      (''isPrototypeOf'', InheritedFunction 1),
      (''propertyIsEnumerable'', InheritedFunction 1),
      (''toLocaleString'', InheritedFunction 0),
      (''toString'', InheritedFunction 0),
      (''valueOf'', InheritedFunction 0),
      (''__defineGetter__'', InheritedFunction 2),
      (''__defineSetter__'', InheritedFunction 2),
      (''__lookupGetter__'', InheritedFunction 1),
      (''__lookupSetter__'', InheritedFunction 1),
      (''__proto__'', InheritedObject)]"

definition getProperty :: "(string \<times> product list) list \<Rightarrow> string \<Rightarrow> propValue" where
  "getProperty obj k =
     (case map_of obj k of
        Some ps \<Rightarrow> ProductList ps
      | None \<Rightarrow> (case map_of objectPrototype k of Some v \<Rightarrow> v | None \<Rightarrow> Undefined))"

text \<open>\<^verbatim>\<open>Object.keys\<close>, and \<^verbatim>\<open>results[k] || []\<close>: only \<^verbatim>\<open>undefined\<close> is falsy here.\<close>

definition keys :: "(string \<times> 'v) list \<Rightarrow> string list" where
  "keys obj = remdups (map fst obj)"

definition lookup_or_empty :: "(string \<times> product list) list \<Rightarrow> string \<Rightarrow> propValue" where
  "lookup_or_empty obj k =
     (case getProperty obj k of Undefined \<Rightarrow> ProductList [] | v \<Rightarrow> v)"

definition sortedProducts :: "product list \<Rightarrow> product list" where
  "sortedProducts products = sort_cmp byPrice products"

definition bestPriceProducts :: "product list \<Rightarrow> product list" where
  "bestPriceProducts products =
     (let sorted0 = sortedProducts products;
          bestPrice = price (hd sorted0)
      in filter (\<lambda>p. price p = bestPrice) sorted0)"

definition otherProducts :: "product list \<Rightarrow> product list" where
  "otherProducts products =
     (let sorted0 = sortedProducts products;
          bestPrice = price (hd sorted0)
      in filter (\<lambda>p. price p \<noteq> bestPrice) sorted0)"

text \<open>
  One iteration of \<^verbatim>\<open>state.cart.forEach\<close>. For a product list, the reads
  \<^verbatim>\<open>sortedProducts[0]\<close> and \<^verbatim>\<open>bestPriceProducts[0]\<close> are in range: the list is not empty
  in that branch. For an inherited function, \<^verbatim>\<open>products.length === 0\<close> compares the
  function's length, and when that is not 0 the spread \<^verbatim>\<open>[...products]\<close> throws, a
  function not being iterable; so it does for \<^verbatim>\<open>Object.prototype\<close>, whose length is
  \<^verbatim>\<open>undefined\<close>.
\<close>

definition renderCard :: "(string \<times> product list) list \<Rightarrow> cartItem \<times> nat \<Rightarrow> exn + resultCard" where
  "renderCard res ci =
     (let cartItem = fst ci; cartIndex = snd ci
      in case lookup_or_empty res (name cartItem) of
           ProductList products \<Rightarrow>
             if length products = 0 then Inr (ResultCard (name cartItem) NoProductsFound)
             else
               let bestPrice = price (hd (sortedProducts products));
                   best = bestPriceProducts products
               in if length best = 1
                  then Inr (ResultCard (name cartItem) (BestSingle (hd best) bestPrice))
                  else Inr (ResultCard (name cartItem)
                         (BestMultiple (hd best) bestPrice (length best - 1) cartIndex (tl best)))
         | InheritedFunction n \<Rightarrow>
             if n = 0 then Inr (ResultCard (name cartItem) NoProductsFound) else Inl TypeError
         | InheritedObject \<Rightarrow> Inl TypeError
         | Undefined \<Rightarrow> Inl TypeError)"

text \<open>
  The loop over the cart: each card is appended to the table; an exception ends the loop
  and leaves the cards made so far.
\<close>

fun renderCards :: "(string \<times> product list) list \<Rightarrow> (cartItem \<times> nat) list \<Rightarrow> resultCard list \<Rightarrow>
    exn option \<times> resultCard list" where
  "renderCards res [] table = (None, table)"
| "renderCards res (ci # rest) table =
     (case renderCard res ci of
        Inl e \<Rightarrow> (Some e, table)
      | Inr made \<Rightarrow> renderCards res rest (table @ [made]))"

text \<open>
  \<^verbatim>\<open>results[item].length > 0\<close> and \<^verbatim>\<open>products.length\<close> for the keys and values of the
  object itself.
\<close>

definition valueLength :: "propValue \<Rightarrow> nat" where
  "valueLength v = (case v of ProductList ps \<Rightarrow> length ps | InheritedFunction n \<Rightarrow> n | _ \<Rightarrow> 0)"

definition itemsWithResults :: "(string \<times> product list) list \<Rightarrow> string list" where
  "itemsWithResults res = filter (\<lambda>item. valueLength (getProperty res item) > 0) (keys res)"

text \<open>\<^verbatim>\<open>data.results || {}\<close>.\<close>

definition resultsOrEmpty :: "pollData \<Rightarrow> (string \<times> product list) list" where
  "resultsOrEmpty data = (case results data of None \<Rightarrow> [] | Some r \<Rightarrow> r)"

text \<open>
  \<^verbatim>\<open>displayResults\<close> returns the exception it ended with, if any, and the page as far as
  it was written: the summary is written before the loop over the cart.
\<close>

definition displayResults :: "pollData \<Rightarrow> app \<Rightarrow> exn option \<times> app" where
  "displayResults data s =
     (let res = resultsOrEmpty data;
          totalProductsCount = sum_list (map (\<lambda>k. valueLength (getProperty res k)) (keys res));
          (thrown, table) = renderCards res (zip (cart s) [0 ..< length (cart s)]) []
      in (thrown,
          s\<lparr>resultsPage := Some
            \<lparr> itemsFoundCount = length (itemsWithResults res),
              zipDisplay = (case zip_code data of
                              None \<Rightarrow> zipCode s
                            | Some z \<Rightarrow> if z = [] then zipCode s else Some z),
              totalItems = length (cart s),
              totalProducts = totalProductsCount,
              processingTime = (case total_time data of
                                  None \<Rightarrow> None
                                | Some t \<Rightarrow> if t = 0 then None else Some t),
              resultsTable = table \<rparr>\<rparr>))"

definition pollResults_catch :: "app \<Rightarrow> app" where
  "pollResults_catch s =
     goToStep 2 (showToast ''Error fetching results. Please try again.''
       (clearInterval (pollInterval s) s))"

text \<open>
  An exception of \<^verbatim>\<open>displayResults\<close> is thrown inside the \<^verbatim>\<open>try\<close> and ends in the same
  \<^verbatim>\<open>catch\<close> as a failed request.
\<close>

definition pollResults_resolve :: "pollData response \<Rightarrow> app \<Rightarrow> app" where
  "pollResults_resolve r s =
     (case r of
        Ok data \<Rightarrow>
          if job_status data = ''complete'' then
            (let s1 = clearInterval (pollInterval s) s;
                 s2 = s1\<lparr>progressFill := 100\<rparr>
             in case displayResults data s2 of
                  (None, s3) \<Rightarrow> goToStep 4 s3
                | (Some e, s3) \<Rightarrow> pollResults_catch s3)
          else if job_status data = ''processing'' then s\<lparr>loadingStatus := Some Processing\<rparr>
          else if job_status data = ''failed'' then
            goToStep 2 (showToast ''Search failed. Please try again.''
              (clearInterval (pollInterval s) s))
          else if job_status data = ''queued'' then
            s\<lparr>loadingStatus := Some (Queued (case queue_position data of
                                               None \<Rightarrow> None
                                             | Some q \<Rightarrow> if q = 0 then None else Some q))\<rparr>
          else s
      | _ \<Rightarrow> pollResults_catch s)"

text \<open>The click on the new-search button.\<close>

definition newSearch :: "app \<Rightarrow> app" where
  "newSearch s =
     goToStep 1 (s\<lparr>cart := [], jobId := None, zipCode := None, itemInput := [], zipInput := []\<rparr>)"

subsection \<open>The event loop\<close>

text \<open>
  What can happen to the page, one event at a time. A timer's tick runs \<^verbatim>\<open>pollResults\<close> when
  that timer is active; a stopped timer does not fire.
\<close>

datatype event =
  SubmitCart
| SubmitCartResponse "string option response"
| TimerTick nat
| PollResponse "pollData response"
| NewSearch

fun step :: "app \<Rightarrow> event \<Rightarrow> app" where
  "step s SubmitCart = submitCart_begin s"
| "step s (SubmitCartResponse r) = submitCart_resolve r s"
| "step s (TimerTick t) = (if t \<in> set (timers s) then pollResults_begin s else s)"
| "step s (PollResponse r) = pollResults_resolve r s"
| "step s NewSearch = newSearch s"

definition exec :: "app \<Rightarrow> event list \<Rightarrow> app" where
  "exec s es = foldl step s es"

text \<open>The states a run goes through, the first one included.\<close>

fun trace :: "app \<Rightarrow> event list \<Rightarrow> app list" where
  "trace s [] = [s]"
| "trace s (e # es) = s # trace (step s e) es"

subsection \<open>Runs and observations used in the statements\<close>

text \<open>Submissions of item text one after the other, each with the clock's reading.\<close>

fun submitAll :: "(int \<times> string) list \<Rightarrow> app \<Rightarrow> app" where
  "submitAll [] s = s"
| "submitAll ((now, t) # subs) s = submitAll subs (submitItemForAI_begin now t s)"





text \<open>
  The failure path of a submission or of a poll, seen from outside: the page is back on
  step 2, the cart and the stored zip code are as before, and one more toast is shown.
\<close>

definition revertedToLocation :: "string \<Rightarrow> app \<Rightarrow> app \<Rightarrow> bool" where
  "revertedToLocation message s s' =
     (currentStep s' = 2 \<and> cart s' = cart s \<and> zipCode s' = zipCode s \<and>
      toasts s' = toasts s @ [message])"

text \<open>
  The event that starts a job's polling (a submission answered with a job id), the poll
  answers after which \<^verbatim>\<open>pollResults\<close> stops the timer, and the answer that reports
  completion.
\<close>

fun startsJob :: "event \<Rightarrow> bool" where
  "startsJob (SubmitCartResponse (Ok (Some job_id))) = True"
| "startsJob _ = False"

fun terminal :: "pollData response \<Rightarrow> bool" where
  "terminal (Ok data) = (job_status data = ''complete'' \<or> job_status data = ''failed'')"
| "terminal _ = True"

fun reportsComplete :: "pollData response \<Rightarrow> bool" where
  "reportsComplete (Ok data) = (job_status data = ''complete'')"
| "reportsComplete _ = False"


text \<open>
  While one job is polled and no other timer is left over: either no timer is active, or
  the one active timer is the one \<^verbatim>\<open>state.pollInterval\<close> holds and the bar shows the
  count's value.
\<close>

definition pollInv :: "app \<Rightarrow> bool" where
  "pollInv s = (progressFill s \<le> 100 \<and>
     (timers s = [] \<or>
      (case pollInterval s of
         None \<Rightarrow> False
       | Some t \<Rightarrow> timers s = [t] \<and> progressFill s = min (pollCount s * 10) 90)))"

text \<open>
  A run that has no tick after an answer reporting completion, and the state in which
  the bar shows the count's value.
\<close>

fun isTick :: "event \<Rightarrow> bool" where
  "isTick (TimerTick t) = True"
| "isTick _ = False"

fun untilComplete :: "event list \<Rightarrow> bool" where
  "untilComplete [] = True"
| "untilComplete (PollResponse r # es) =
     (if reportsComplete r then \<not> list_ex isTick es else untilComplete es)"
| "untilComplete (e # es) = untilComplete es"

definition showsCount :: "app \<Rightarrow> bool" where
  "showsCount s = (progressFill s = min (pollCount s * 10) 90)"

text \<open>Events of the example runs.\<close>

definition okJob :: "string \<Rightarrow> event" where
  "okJob j = SubmitCartResponse (Ok (Some j))"

definition pollAnswer :: "string \<Rightarrow> event" where
  "pollAnswer st = PollResponse (Ok \<lparr>job_status = st, queue_position = None, results = None,
      zip_code = None, total_time = None\<rparr>)"

text \<open>The parts of a card, and a product of a merchant at a price.\<close>

fun cardName :: "resultCard \<Rightarrow> string" where
  "cardName (ResultCard n b) = n"

fun cardBody :: "resultCard \<Rightarrow> resultBody" where
  "cardBody (ResultCard n b) = b"

definition offer :: "string \<Rightarrow> rat \<Rightarrow> product" where
  "offer m p = \<lparr>product_name = None, title = None, merchant = m, price = p, location = None\<rparr>"

text \<open>
  The products found under a name among the keys of the results, none when the name is
  not a key, and the body of the card for a product list as the page describes it: the
  placeholder for no products, else the first product at the lowest price, alone or with
  the count and the rest of those at that price.
\<close>

definition productsUnder :: "(string \<times> product list) list \<Rightarrow> string \<Rightarrow> product list" where
  "productsUnder r k = (case map_of r k of None \<Rightarrow> [] | Some ps \<Rightarrow> ps)"

definition bestPriceBody :: "product list \<Rightarrow> nat \<Rightarrow> resultBody" where
  "bestPriceBody ps k =
     (if ps = [] then NoProductsFound
      else let m = Min (price ` set ps); best = filter (\<lambda>p. price p = m) ps
           in if length best = 1 then BestSingle (hd best) m
              else BestMultiple (hd best) m (length best - 1) k (tl best))"

text \<open>Finished jobs and carts of the examples.\<close>

definition completeWith :: "(string \<times> product list) list option \<Rightarrow> pollData" where
  "completeWith r = \<lparr>job_status = ''complete'', queue_position = None, results = r,
      zip_code = None, total_time = None\<rparr>"

definition cartOf :: "string list \<Rightarrow> app" where
  "cartOf ns = foldl (\<lambda>s n. addToCart n s) initial ns"

section \<open>The cart\<close>

lemma cart_addToCart:
  "cart (addToCart n s) =
     (if n \<in> name ` set (cart s) \<or> MAX_ITEMS \<le> length (cart s) then cart s
      else cart s @ [\<lparr>name = n\<rparr>])"
  by (auto simp: addToCart_def showToast_def list_ex_iff)

lemma addToCart_preserves:
  "distinct (map name (cart s)) \<Longrightarrow> length (cart s) \<le> MAX_ITEMS \<Longrightarrow>
   distinct (map name (cart (addToCart n s))) \<and> length (cart (addToCart n s)) \<le> MAX_ITEMS"
  by (auto simp: cart_addToCart)

lemma addAll_preserves:
  "distinct (map name (cart s)) \<Longrightarrow> length (cart s) \<le> MAX_ITEMS \<Longrightarrow>
   distinct (map name (cart (foldl (\<lambda>s n. addToCart n s) s ns))) \<and>
   length (cart (foldl (\<lambda>s n. addToCart n s) s ns)) \<le> MAX_ITEMS"
proof (induction ns arbitrary: s)
  case Nil
  then show ?case by simp
next
  case (Cons n ns)
  from addToCart_preserves [OF Cons.prems]
  have "distinct (map name (cart (addToCart n s)))" "length (cart (addToCart n s)) \<le> MAX_ITEMS"
    by simp_all
  from Cons.IH [OF this] show ?case by simp
qed

text \<open>
  C4. Start from a cart with distinct names and at most 10 items (the empty cart of a
  fresh page is one) and add any names \<open>ns\<close> in turn. The cart reached has distinct names
  and at most 10 items. In it, adding a name that is there already (the same string), or
  adding anything when it holds 10 items, returns normally: the cart is the same and one
  notice is shown.
\<close>

theorem addToCart_rejects_and_invariant:
  assumes "distinct (map name (cart s))" and "length (cart s) \<le> MAX_ITEMS"
  shows "(let s' = foldl (\<lambda>s n. addToCart n s) s ns in
           distinct (map name (cart s')) \<and> length (cart s') \<le> 10 \<and>
           (\<forall>n. n \<in> name ` set (cart s') \<or> length (cart s') = 10 \<longrightarrow>
              cart (addToCart n s') = cart s' \<and>
              toasts (addToCart n s') =
                toasts s' @ [if n \<in> name ` set (cart s') then ''Item already in cart!''
                             else ''Maximum 10 items allowed'']))"
proof -
  define s' where "s' = foldl (\<lambda>s n. addToCart n s) s ns"
  have inv: "distinct (map name (cart s'))" "length (cart s') \<le> MAX_ITEMS"
    using addAll_preserves [OF assms, of ns] by (simp_all add: s'_def)
  have rej: "cart (addToCart n s') = cart s' \<and>
        toasts (addToCart n s') =
          toasts s' @ [if n \<in> name ` set (cart s') then ''Item already in cart!''
                       else ''Maximum 10 items allowed'']"
    if "n \<in> name ` set (cart s') \<or> length (cart s') = 10" for n
    using that by (auto simp: addToCart_def showToast_def list_ex_iff MAX_ITEMS_def)
  show ?thesis
    unfolding Let_def s'_def [symmetric] using inv rej by (simp add: MAX_ITEMS_def)
qed

text \<open>
  Thirteen adds on a fresh page, one of them a repeat: the repeat and the two adds past
  the tenth item are dropped.
\<close>

theorem addToCart_rejects_and_invariant_witness:
  "distinct (map name (cart initial)) \<and> length (cart initial) \<le> MAX_ITEMS \<and>
   map name (cart (foldl (\<lambda>s n. addToCart n s) initial
      [''a'', ''b'', ''a'', ''c'', ''d'', ''e'', ''f'', ''g'', ''h'', ''i'', ''j'', ''k'', ''l''])) =
     [''a'', ''b'', ''c'', ''d'', ''e'', ''f'', ''g'', ''h'', ''i'', ''j'']"
  using addToCart_rejects_and_invariant [of initial "[''a'', ''b'', ''a'', ''c'', ''d'', ''e'', ''f'', ''g'', ''h'', ''i'', ''j'', ''k'', ''l'']"]
  by (simp add: initial_def addToCart_def showToast_def MAX_ITEMS_def)

section \<open>Pending suggestions\<close>



lemma pending_fetchSuggestions_resolve:
  "pendingSuggestions (snd (fetchSuggestions_resolve r s)) = pendingSuggestions s"
  by (cases r) (simp_all add: fetchSuggestions_resolve_def showToast_def)

lemma fetchSuggestions_resolve_Inr:
  "fst (fetchSuggestions_resolve r s) = Inr (case r of Ok data \<Rightarrow> Some data | _ \<Rightarrow> None)"
  by (cases r) (simp_all add: fetchSuggestions_resolve_def)

lemma pending_submitItemForAI_resolve:
  "pendingSuggestions (submitItemForAI_resolve i r s) =
     updateFirst i (\<lambda>item. item\<lparr>status := Complete,
        suggestions := (case r of Ok data \<Rightarrow> Some data | _ \<Rightarrow> None)\<rparr>) (pendingSuggestions s)"
  by (cases r) (simp_all add: submitItemForAI_resolve_def fetchSuggestions_resolve_def showToast_def)












lemma ids_submitItemForAI_begin:
  "map pending_id (pendingSuggestions (submitItemForAI_begin now t s)) =
     map pending_id (pendingSuggestions s) @ (if length t < 2 then [] else [now])"
  by (simp add: submitItemForAI_begin_def fetchSuggestions_begin_def Let_def)

lemma texts_submitItemForAI_begin:
  "map originalText (pendingSuggestions (submitItemForAI_begin now t s)) =
     map originalText (pendingSuggestions s) @ (if length t < 2 then [] else [t])"
  by (simp add: submitItemForAI_begin_def fetchSuggestions_begin_def Let_def)

lemma ids_submitAll:
  "list_all (\<lambda>(now, t). 2 \<le> length t) subs \<Longrightarrow>
   map pending_id (pendingSuggestions (submitAll subs s)) =
     map pending_id (pendingSuggestions s) @ map fst subs \<and>
   map originalText (pendingSuggestions (submitAll subs s)) =
     map originalText (pendingSuggestions s) @ map snd subs"
  by (induction subs s rule: submitAll.induct)
     (auto simp: ids_submitItemForAI_begin texts_submitItemForAI_begin)






text \<open>
  C9, as the code has it. The id of an entry is the reading of \<^verbatim>\<open>Date.now()\<close> when its text
  was submitted: submissions of texts of two characters or more append one entry each,
  in submission order, whose ids are the clock's readings and whose texts are the texts
  submitted. So the ids are distinct and increasing in submission order when the
  readings (after the ids already there) are strictly increasing.
\<close>

theorem pending_ids_are_clock_readings:
  assumes "list_all (\<lambda>(now, t). 2 \<le> length t) subs"
  shows "map pending_id (pendingSuggestions (submitAll subs s)) =
           map pending_id (pendingSuggestions s) @ map fst subs \<and>
         map originalText (pendingSuggestions (submitAll subs s)) =
           map originalText (pendingSuggestions s) @ map snd subs \<and>
         (sorted_wrt (<) (map pending_id (pendingSuggestions s) @ map fst subs) \<longrightarrow>
            distinct (map pending_id (pendingSuggestions (submitAll subs s))) \<and>
            sorted_wrt (<) (map pending_id (pendingSuggestions (submitAll subs s))))"
  using ids_submitAll [OF assms, of s]
  by (auto simp: strict_sorted_iff)

text \<open>Two submissions one millisecond apart on a fresh page.\<close>

theorem pending_ids_are_clock_readings_witness:
  "list_all (\<lambda>(now, t). 2 \<le> length t) [(1001, ''milk''), (1002, ''eggs'')] \<and>
   sorted_wrt (<) (map pending_id (pendingSuggestions initial) @
      map fst [(1001 :: int, ''milk''), (1002, ''eggs'')]) \<and>
   map pending_id (pendingSuggestions (submitAll [(1001, ''milk''), (1002, ''eggs'')] initial)) =
     [1001, 1002]"
  using pending_ids_are_clock_readings [of "[(1001, ''milk''), (1002, ''eggs'')]" initial]
  by (simp add: initial_def)

text \<open>
  C9 as stated fails: two submissions within the same millisecond get the same id, and
  when the clock steps back the later submission gets the smaller id.
\<close>

theorem pending_ids_collide_counterexample:
  "\<not> (distinct (map pending_id (pendingSuggestions
        (submitAll [(1001, ''milk''), (1001, ''eggs'')] initial)))) \<and>
   \<not> (sorted_wrt (<) (map pending_id (pendingSuggestions
        (submitAll [(1002, ''milk''), (1001, ''eggs'')] initial))))"
  by (simp add: initial_def submitItemForAI_begin_def fetchSuggestions_begin_def Let_def)

text \<open>
  C10. The Enter key and the button read the input, trim it, and do nothing when fewer
  than two characters are left: the whole page state, the pending list and the requests
  sent included, is the one before. \<^verbatim>\<open>submitItemForAI\<close> itself returns at once, with the
  state untouched, for a text shorter than two characters.
\<close>

theorem short_text_is_noop:
  "(length (trim (itemInput s)) < 2 \<longrightarrow>
      itemInput_keypress key now s = s \<and> addManualBtn_click now s = s) \<and>
   (length t < 2 \<longrightarrow> submitItemForAI_begin now t s = s)"
  by (simp add: itemInput_keypress_def addManualBtn_click_def submitItemForAI_begin_def Let_def)

text \<open>The input holds two blanks, the letter a and a blank.\<close>

theorem short_text_is_noop_witness:
  "length (trim (itemInput (initial\<lparr>itemInput := ''  a ''\<rparr>))) < 2 \<and>
   length ''a'' < 2 \<and>
   itemInput_keypress ''Enter'' 1001 (initial\<lparr>itemInput := ''  a ''\<rparr>) = initial\<lparr>itemInput := ''  a ''\<rparr> \<and>
   addManualBtn_click 1001 (initial\<lparr>itemInput := ''  a ''\<rparr>) = initial\<lparr>itemInput := ''  a ''\<rparr> \<and>
   submitItemForAI_begin 1001 ''a'' initial = initial"
  using short_text_is_noop [of "initial\<lparr>itemInput := ''  a ''\<rparr>" "''Enter''" 1001 "''a''"]
    short_text_is_noop [of initial "''Enter''" 1001 "''a''"]
  by (simp add: trim_def isWhiteSpace_def)

lemma status_updateFirst:
  "(\<And>p. status (f p) = Complete) \<Longrightarrow>
   status ` set (updateFirst i f ps) \<subseteq> insert Complete (status ` set ps)"
  by (induction ps) auto

text \<open>No answer of the clarify endpoint puts an entry into the error state.\<close>

lemma submitItemForAI_never_error:
  "status ` set (pendingSuggestions (submitItemForAI_resolve i r s)) \<subseteq>
     insert Complete (status ` set (pendingSuggestions s))"
  by (simp add: pending_submitItemForAI_resolve status_updateFirst)

text \<open>
  C2, on the code. \<^verbatim>\<open>fetchSuggestions\<close> catches the failure itself and resolves to
  \<^verbatim>\<open>null\<close>, so the \<^verbatim>\<open>catch\<close> of \<^verbatim>\<open>submitItemForAI\<close> that sets the error status is
  never entered: after a failed lookup the entry is complete, with no suggestions, and a
  toast is shown.
\<close>

theorem fetch_failure_marks_complete:
  "pendingSuggestions (submitItemForAI_resolve 1001 HttpError (submitItemForAI_begin 1001 ''milk'' initial)) =
     [\<lparr>pending_id = 1001, originalText = ''milk'', status = Complete, suggestions = None\<rparr>] \<and>
   pendingSuggestions (submitItemForAI_resolve 1001 NetworkError (submitItemForAI_begin 1001 ''milk'' initial)) =
     [\<lparr>pending_id = 1001, originalText = ''milk'', status = Complete, suggestions = None\<rparr>] \<and>
   toasts (submitItemForAI_resolve 1001 HttpError (submitItemForAI_begin 1001 ''milk'' initial)) =
     [''Failed to get AI suggestions. Try again!'']"
  by (simp add: submitItemForAI_resolve_def submitItemForAI_begin_def fetchSuggestions_begin_def
      fetchSuggestions_resolve_def showToast_def initial_def Let_def)

section \<open>Submission and polling\<close>

lemma fields_clearInterval:
  "cart (clearInterval h s) = cart s" "zipCode (clearInterval h s) = zipCode s"
  "toasts (clearInterval h s) = toasts s" "currentStep (clearInterval h s) = currentStep s"
  "progressFill (clearInterval h s) = progressFill s" "pollCount (clearInterval h s) = pollCount s"
  "pollInterval (clearInterval h s) = pollInterval s"
  by (simp_all add: clearInterval_def split: option.splits)

lemma timers_clearInterval:
  "timers (clearInterval h s) = (case h of None \<Rightarrow> timers s | Some t \<Rightarrow> removeAll t (timers s))"
  by (simp add: clearInterval_def split: option.splits)

text \<open>
  C3. A submission answered with an HTTP failure (or not answered, or answered without a
  job id), a poll answered with the status \<^verbatim>\<open>failed\<close>, and a poll that fails on the
  network or with an HTTP failure, each show one toast and put the page on step 2, with
  the cart and the stored zip code as they were. The zip code stored is the one
  \<^verbatim>\<open>submitCart\<close> took from the input when the submission started, which leaves the cart
  alone as well.
\<close>

theorem failures_revert_to_location:
  "revertedToLocation ''Failed to submit cart. Please try again.'' s (submitCart_resolve HttpError s) \<and>
   revertedToLocation ''Failed to submit cart. Please try again.'' s (submitCart_resolve NetworkError s) \<and>
   revertedToLocation ''Failed to submit cart. Please try again.'' s (submitCart_resolve (Ok None) s) \<and>
   revertedToLocation ''Search failed. Please try again.'' s
     (pollResults_resolve (Ok (data\<lparr>job_status := ''failed''\<rparr>)) s) \<and>
   revertedToLocation ''Error fetching results. Please try again.'' s (pollResults_resolve NetworkError s) \<and>
   revertedToLocation ''Error fetching results. Please try again.'' s (pollResults_resolve HttpError s) \<and>
   cart (submitCart_begin s) = cart s \<and> zipCode (submitCart_begin s) = Some (zipInput s)"
  by (simp add: revertedToLocation_def submitCart_resolve_def submitCart_catch_def
      pollResults_resolve_def pollResults_catch_def goToStep_def showToast_def
      fields_clearInterval submitCart_begin_def Let_def)

lemma timers_pollResults_begin: "timers (pollResults_begin s) = timers s"
  by (simp add: pollResults_begin_def Let_def)

lemma timers_startPolling: "timers (startPolling s) = timers s @ [nextTimer s]"
  by (simp add: startPolling_def setInterval_def pollResults_begin_def Let_def)

lemma pollInterval_startPolling: "pollInterval (startPolling s) = Some (nextTimer s)"
  by (simp add: startPolling_def setInterval_def pollResults_begin_def Let_def)

lemma timers_newSearch: "timers (newSearch s) = timers s"
  by (simp add: newSearch_def goToStep_def)

lemma timers_submitCart_begin: "timers (submitCart_begin s) = timers s"
  by (simp add: submitCart_begin_def goToStep_def Let_def)

lemma fields_displayResults:
  "cart (snd (displayResults data s)) = cart s"
  "zipCode (snd (displayResults data s)) = zipCode s"
  "toasts (snd (displayResults data s)) = toasts s"
  "currentStep (snd (displayResults data s)) = currentStep s"
  "progressFill (snd (displayResults data s)) = progressFill s"
  "pollCount (snd (displayResults data s)) = pollCount s"
  "pollInterval (snd (displayResults data s)) = pollInterval s"
  "timers (snd (displayResults data s)) = timers s"
  by (simp_all add: displayResults_def Let_def split: prod.splits)

lemma pollResults_resolve_complete:
  "job_status data = ''complete'' \<Longrightarrow>
   pollResults_resolve (Ok data) s =
     (let s2 = (clearInterval (pollInterval s) s)\<lparr>progressFill := 100\<rparr>;
          s3 = snd (displayResults data s2)
      in if fst (displayResults data s2) = None then goToStep 4 s3 else pollResults_catch s3)"
  by (simp add: pollResults_resolve_def Let_def split: prod.splits option.splits)

lemma timers_pollResults_resolve:
  "timers (pollResults_resolve r s) =
     (if terminal r then timers (clearInterval (pollInterval s) s) else timers s)"
proof (cases r)
  case (Ok data)
  show ?thesis
  proof (cases "job_status data = ''complete''")
    case True
    with Ok show ?thesis
      by (simp add: pollResults_resolve_complete Let_def fields_displayResults
          pollResults_catch_def goToStep_def showToast_def timers_clearInterval
          fields_clearInterval split: option.splits)
  next
    case False
    with Ok show ?thesis
      by (simp add: pollResults_resolve_def goToStep_def showToast_def)
  qed
qed (simp_all add: pollResults_resolve_def pollResults_catch_def goToStep_def showToast_def)

lemma timers_submitCart_resolve:
  "timers (submitCart_resolve r s) =
     (if startsJob (SubmitCartResponse r) then timers s @ [nextTimer s] else timers s)"
proof (cases r)
  case (Ok j)
  then show ?thesis
    by (cases j)
       (simp_all add: submitCart_resolve_def submitCart_catch_def goToStep_def showToast_def
          timers_startPolling)
qed (simp_all add: submitCart_resolve_def submitCart_catch_def goToStep_def showToast_def)






lemmas run_defs = exec_def okJob_def pollAnswer_def initial_def submitCart_begin_def
  submitCart_resolve_def startPolling_def setInterval_def pollResults_begin_def
  pollResults_resolve_def clearInterval_def goToStep_def showToast_def newSearch_def Let_def



lemma progress_pollResults_begin:
  "progressFill (pollResults_begin s) = min (Suc (pollCount s) * 10) 90 \<and>
   pollCount (pollResults_begin s) = Suc (pollCount s) \<and>
   pollInterval (pollResults_begin s) = pollInterval s"
  by (simp add: pollResults_begin_def Let_def)

lemma progress_pollResults_resolve:
  "progressFill (pollResults_resolve r s) = (if reportsComplete r then 100 else progressFill s) \<and>
   pollCount (pollResults_resolve r s) = pollCount s \<and>
   pollInterval (pollResults_resolve r s) = pollInterval s"
proof (cases r)
  case (Ok data)
  show ?thesis
  proof (cases "job_status data = ''complete''")
    case True
    with Ok show ?thesis
      by (simp add: pollResults_resolve_complete Let_def fields_displayResults
          pollResults_catch_def goToStep_def showToast_def fields_clearInterval)
  next
    case False
    with Ok show ?thesis
      by (simp add: pollResults_resolve_def goToStep_def showToast_def fields_clearInterval)
  qed
qed (simp_all add: pollResults_resolve_def pollResults_catch_def goToStep_def showToast_def
    fields_clearInterval)

lemma progress_submitCart_begin:
  "progressFill (submitCart_begin s) = progressFill s \<and>
   pollCount (submitCart_begin s) = pollCount s \<and>
   pollInterval (submitCart_begin s) = pollInterval s"
  by (simp add: submitCart_begin_def goToStep_def Let_def)

lemma progress_newSearch:
  "progressFill (newSearch s) = progressFill s \<and>
   pollCount (newSearch s) = pollCount s \<and>
   pollInterval (newSearch s) = pollInterval s"
  by (simp add: newSearch_def goToStep_def)

lemma progress_submitCart_fail:
  "\<not> startsJob (SubmitCartResponse r) \<Longrightarrow>
   progressFill (submitCart_resolve r s) = progressFill s \<and>
   pollCount (submitCart_resolve r s) = pollCount s \<and>
   pollInterval (submitCart_resolve r s) = pollInterval s"
proof (cases r)
  case (Ok j)
  assume "\<not> startsJob (SubmitCartResponse r)"
  with Ok have "j = None" by (cases j) simp_all
  with Ok show ?thesis
    by (simp add: submitCart_resolve_def submitCart_catch_def goToStep_def showToast_def)
qed (simp_all add: submitCart_resolve_def submitCart_catch_def goToStep_def showToast_def)

lemma pollInv_startPolling: "timers s = [] \<Longrightarrow> pollInv (startPolling s)"
  by (auto simp: pollInv_def startPolling_def setInterval_def pollResults_begin_def Let_def
        split: option.splits)

lemma terminal_if_complete: "reportsComplete r \<Longrightarrow> terminal r"
  by (cases r) simp_all

lemma pollInv_step:
  assumes "pollInv s" and "\<not> startsJob e"
  shows "pollInv (step s e) \<and> progressFill s \<le> progressFill (step s e)"
proof (cases e)
  case SubmitCart
  with assms(1) show ?thesis
    by (auto simp: pollInv_def progress_submitCart_begin timers_submitCart_begin
        split: option.splits)
next
  case (SubmitCartResponse r)
  with assms(2) have ns: "\<not> startsJob (SubmitCartResponse r)" by simp
  from assms(1) SubmitCartResponse ns show ?thesis
    by (auto simp: pollInv_def progress_submitCart_fail [OF ns] timers_submitCart_resolve
        split: option.splits)
next
  case (TimerTick t)
  with assms(1) show ?thesis
    by (auto simp: pollInv_def progress_pollResults_begin timers_pollResults_begin
        split: option.splits)
next
  case (PollResponse r)
  show ?thesis
  proof (cases "terminal r")
    case True
    from assms(1) have "timers (clearInterval (pollInterval s) s) = []"
      by (auto simp: pollInv_def timers_clearInterval split: option.splits)
    with True assms(1) PollResponse show ?thesis
      by (auto simp: pollInv_def progress_pollResults_resolve timers_pollResults_resolve
        split: option.splits)
  next
    case False
    then have "\<not> reportsComplete r" using terminal_if_complete by blast
    with False assms(1) PollResponse show ?thesis
      by (auto simp: pollInv_def progress_pollResults_resolve timers_pollResults_resolve
        split: option.splits)
  qed
next
  case NewSearch
  with assms(1) show ?thesis
    by (auto simp: pollInv_def progress_newSearch timers_newSearch
        split: option.splits)
qed

lemma trace_head: "\<exists>rest. trace s es = s # rest"
  by (cases es) simp_all

lemma progress_sorted:
  "pollInv s \<Longrightarrow> \<not> list_ex startsJob es \<Longrightarrow> sorted (map progressFill (trace s es))"
proof (induction es arbitrary: s)
  case Nil
  then show ?case by simp
next
  case (Cons e es)
  from Cons.prems have ne: "\<not> startsJob e" and rest: "\<not> list_ex startsJob es"
    by simp_all
  from pollInv_step [OF Cons.prems(1) ne]
  have inv: "pollInv (step s e)" and le: "progressFill s \<le> progressFill (step s e)"
    by simp_all
  from trace_head obtain tr where tr: "trace (step s e) es = step s e # tr"
    by blast
  from Cons.IH [OF inv rest] tr le show ?case by (auto intro: order_trans)
qed

lemma progress_step_no_tick:
  assumes "\<not> startsJob e" and "\<not> isTick e"
  shows "progressFill (step s e) = progressFill s \<or> progressFill (step s e) = 100"
proof (cases e)
  case (SubmitCartResponse r)
  with assms(1) show ?thesis by (simp add: progress_submitCart_fail)
next
  case (PollResponse r)
  then show ?thesis by (simp add: progress_pollResults_resolve)
qed (use assms in \<open>simp_all add: progress_submitCart_begin progress_newSearch\<close>)

lemma stays_complete:
  "progressFill s = 100 \<Longrightarrow> \<not> list_ex startsJob es \<Longrightarrow> \<not> list_ex isTick es \<Longrightarrow>
   sorted (map progressFill (trace s es))"
proof (induction es arbitrary: s)
  case Nil
  then show ?case by simp
next
  case (Cons e es)
  from Cons.prems have e: "\<not> startsJob e" "\<not> isTick e"
    and rest: "\<not> list_ex startsJob es" "\<not> list_ex isTick es"
    by simp_all
  from progress_step_no_tick [OF e, of s] Cons.prems(1)
  have p: "progressFill (step s e) = 100" by auto
  from trace_head obtain tr where tr: "trace (step s e) es = step s e # tr"
    by blast
  from Cons.IH [OF p rest] tr p Cons.prems(1) show ?case
    by (auto intro: order_trans)
qed

lemma showsCount_step:
  assumes "showsCount s" and "\<not> startsJob e"
    and "\<And>r. e = PollResponse r \<Longrightarrow> \<not> reportsComplete r"
  shows "showsCount (step s e) \<and> progressFill s \<le> progressFill (step s e)"
proof (cases e)
  case SubmitCart
  with assms(1) show ?thesis by (simp add: showsCount_def progress_submitCart_begin)
next
  case (SubmitCartResponse r)
  with assms(1,2) show ?thesis by (simp add: showsCount_def progress_submitCart_fail)
next
  case (TimerTick t)
  with assms(1) show ?thesis by (auto simp: showsCount_def progress_pollResults_begin)
next
  case (PollResponse r)
  with assms(1,3) show ?thesis by (simp add: showsCount_def progress_pollResults_resolve)
next
  case NewSearch
  with assms(1) show ?thesis by (simp add: showsCount_def progress_newSearch)
qed

lemma progress_sorted_untilComplete:
  "showsCount s \<Longrightarrow> \<not> list_ex startsJob es \<Longrightarrow> untilComplete es \<Longrightarrow>
   sorted (map progressFill (trace s es))"
proof (induction es arbitrary: s)
  case Nil
  then show ?case by simp
next
  case (Cons e es)
  from Cons.prems have ne: "\<not> startsJob e" and rest: "\<not> list_ex startsJob es"
    by simp_all
  from trace_head obtain tr where tr: "trace (step s e) es = step s e # tr"
    by blast
  show ?case
  proof (cases "\<exists>r. e = PollResponse r \<and> reportsComplete r")
    case True
    then obtain r where r: "e = PollResponse r" "reportsComplete r" by blast
    with Cons.prems(3) have nt: "\<not> list_ex isTick es" by simp
    from r have p: "progressFill (step s e) = 100"
      by (simp add: progress_pollResults_resolve)
    from Cons.prems(1) have "progressFill s \<le> 100"
      by (simp add: showsCount_def)
    with stays_complete [OF p rest nt] tr p show ?thesis
      by (auto intro: order_trans)
  next
    case False
    then have nc: "\<And>r. e = PollResponse r \<Longrightarrow> \<not> reportsComplete r" by blast
    from showsCount_step [OF Cons.prems(1) ne nc]
    have inv: "showsCount (step s e)" and le: "progressFill s \<le> progressFill (step s e)"
      by simp_all
    from False Cons.prems(3) have u: "untilComplete es"
      by (cases e) (auto split: if_splits)
    from Cons.IH [OF inv rest u] tr le show ?thesis
      by (auto intro: order_trans)
  qed
qed

lemma showsCount_startPolling: "showsCount (startPolling s)"
  by (simp add: showsCount_def startPolling_def setInterval_def pollResults_begin_def Let_def)

text \<open>
  C5. Every run of \<^verbatim>\<open>pollResults\<close> counts one up and sets the bar to the smaller of ten
  times the count and 90; the first run, made by \<^verbatim>\<open>startPolling\<close>, has the count 1. When
  a job's polling starts with no other timer active, then over every run of events up to
  the start of the next job the bar never goes down; and whatever timers are active, it
  never goes down over a run up to the start of the next job that has no tick after the
  answer reporting completion. A tick never sets the bar above 90;
  an answer sets it to 100 when it reports the status \<^verbatim>\<open>complete\<close> and leaves it alone
  otherwise; and no other event than such an answer brings the bar to 100.
\<close>

theorem progress_indicator:
  "progressFill (pollResults_begin s) = min (pollCount (pollResults_begin s) * 10) 90 \<and>
   pollCount (pollResults_begin s) = pollCount s + 1 \<and>
   pollCount (startPolling s) = 1 \<and>
   (timers s = [] \<and> \<not> list_ex startsJob es \<longrightarrow>
      sorted (map progressFill (trace (startPolling s) es))) \<and>
   (\<not> list_ex startsJob es \<and> untilComplete es \<longrightarrow>
      sorted (map progressFill (trace (startPolling s) es))) \<and>
   progressFill (pollResults_begin s) \<le> 90 \<and>
   progressFill (pollResults_resolve r s) = (if reportsComplete r then 100 else progressFill s) \<and>
   (\<not> startsJob e \<and> progressFill (step s e) = 100 \<and> progressFill s \<noteq> 100 \<longrightarrow>
      (\<exists>r. e = PollResponse r \<and> reportsComplete r))"
proof -
  have a: "timers s = [] \<Longrightarrow> \<not> list_ex startsJob es \<Longrightarrow>
      sorted (map progressFill (trace (startPolling s) es))"
    using progress_sorted [OF pollInv_startPolling] by blast
  have b: "\<exists>r. e = PollResponse r \<and> reportsComplete r"
    if "\<not> startsJob e" "progressFill (step s e) = 100" "progressFill s \<noteq> 100"
  proof (cases e)
    case SubmitCart
    with that show ?thesis by (simp add: progress_submitCart_begin)
  next
    case (SubmitCartResponse r)
    with that show ?thesis by (simp add: progress_submitCart_fail)
  next
    case (TimerTick t)
    with that show ?thesis by (simp add: progress_pollResults_begin split: if_splits)
  next
    case (PollResponse r)
    with that show ?thesis by (simp add: progress_pollResults_resolve split: if_splits)
  next
    case NewSearch
    with that show ?thesis by (simp add: progress_newSearch)
  qed
  have c: "pollCount (startPolling s) = 1"
    by (simp add: startPolling_def setInterval_def pollResults_begin_def Let_def)
  have d: "\<not> list_ex startsJob es \<Longrightarrow> untilComplete es \<Longrightarrow>
      sorted (map progressFill (trace (startPolling s) es))"
    using progress_sorted_untilComplete [OF showsCount_startPolling] by blast
  show ?thesis
    using a b c d by (simp add: progress_pollResults_begin progress_pollResults_resolve)
qed

text \<open>
  One job: two answers \<^verbatim>\<open>processing\<close> with ticks in between, then \<^verbatim>\<open>complete\<close>, after
  which the stopped timer's tick does nothing. And a job started while the timer 1 of an
  earlier job is still active: ticks of both timers, then \<^verbatim>\<open>processing\<close> and \<^verbatim>\<open>complete\<close>.
\<close>

theorem progress_indicator_witness:
  "timers initial = [] \<and>
   \<not> list_ex startsJob [pollAnswer ''processing'', TimerTick 1, pollAnswer ''processing'',
        TimerTick 1, pollAnswer ''complete'', TimerTick 1] \<and>
   map progressFill (trace (startPolling initial)
      [pollAnswer ''processing'', TimerTick 1, pollAnswer ''processing'', TimerTick 1,
       pollAnswer ''complete'', TimerTick 1]) =
     [10, 10, 20, 20, 30, 100, 100] \<and>
   \<not> list_ex startsJob [TimerTick 1, TimerTick 2, pollAnswer ''processing'', pollAnswer ''complete''] \<and>
   untilComplete [TimerTick 1, TimerTick 2, pollAnswer ''processing'', pollAnswer ''complete''] \<and>
   map progressFill (trace (startPolling (startPolling initial))
      [TimerTick 1, TimerTick 2, pollAnswer ''processing'', pollAnswer ''complete'']) =
     [10, 20, 30, 30, 100] \<and>
   \<not> startsJob (pollAnswer ''complete'') \<and>
   progressFill (step (startPolling initial) (pollAnswer ''complete'')) = 100 \<and>
   progressFill (startPolling initial) \<noteq> 100"
  using progress_indicator [of initial
      "[pollAnswer ''processing'', TimerTick 1, pollAnswer ''processing'', TimerTick 1,
        pollAnswer ''complete'', TimerTick 1]"
      NetworkError "pollAnswer ''complete''"]
    progress_indicator [of "startPolling initial"
      "[TimerTick 1, TimerTick 2, pollAnswer ''processing'', pollAnswer ''complete'']"
      NetworkError "pollAnswer ''complete''"]
  by (simp add: run_defs displayResults_def resultsOrEmpty_def keys_def itemsWithResults_def)

section \<open>The results page\<close>

lemma insort_cmp_byPrice: "insort_cmp byPrice x ys = insort_key price x ys"
  by (induction ys) (simp_all add: byPrice_def)

lemma sort_cmp_byPrice: "sort_cmp byPrice xs = sort_key price xs"
  by (induction xs) (simp_all add: sort_cmp_def insort_cmp_byPrice)

lemma sortedProducts_sort_key: "sortedProducts products = sort_key price products"
  by (simp add: sortedProducts_def sort_cmp_byPrice)

lemma sorted_hd_Min:
  "sorted (map f xs) \<Longrightarrow> xs \<noteq> [] \<Longrightarrow> f (hd xs) = Min (f ` set xs)"
proof -
  assume s: "sorted (map f xs)" and ne: "xs \<noteq> []"
  then obtain x rest where xs: "xs = x # rest" by (cases xs) simp_all
  with s have "\<forall>y \<in> set xs. f x \<le> f y" by auto
  then have "Min (f ` set xs) = f x"
    using xs by (intro Min_eqI) auto
  with xs show ?thesis by simp
qed

lemma bestPrice_Min:
  "products \<noteq> [] \<Longrightarrow> price (hd (sortedProducts products)) = Min (price ` set products)"
proof -
  assume ne: "products \<noteq> []"
  have "sorted (map price (sort_key price products))" by simp
  moreover have "sort_key price products \<noteq> []"
    using ne by (metis length_sort length_0_conv)
  ultimately have "price (hd (sort_key price products)) = Min (price ` set (sort_key price products))"
    by (rule sorted_hd_Min)
  then show ?thesis by (simp add: sortedProducts_sort_key)
qed

lemma bestPriceProducts_filter:
  "products \<noteq> [] \<Longrightarrow>
   bestPriceProducts products = filter (\<lambda>p. price p = Min (price ` set products)) products"
  by (simp add: bestPriceProducts_def Let_def bestPrice_Min)
     (simp add: sortedProducts_sort_key sort_key_stable)

lemma bestPriceProducts_nonempty:
  assumes "products \<noteq> []"
  shows "bestPriceProducts products \<noteq> []"
proof -
  have "Min (price ` set products) \<in> price ` set products"
    using assms by (intro Min_in) simp_all
  then obtain p where "p \<in> set products" "price p = Min (price ` set products)"
    by auto
  then have "p \<in> set (filter (\<lambda>p. price p = Min (price ` set products)) products)"
    by simp
  then have "p \<in> set (bestPriceProducts products)"
    by (simp only: bestPriceProducts_filter [OF assms])
  then show ?thesis
    by (cases "bestPriceProducts products") simp_all
qed

lemma lookup_own:
  "map_of res k = Some ps \<Longrightarrow> lookup_or_empty res k = ProductList ps"
  by (simp add: lookup_or_empty_def getProperty_def)

lemma renderCard_nonempty:
  assumes "lookup_or_empty res (name item) = ProductList products" and "products \<noteq> []"
  shows "renderCard res (item, k) = Inr (ResultCard (name item)
           (if length (bestPriceProducts products) = 1
            then BestSingle (hd (bestPriceProducts products)) (Min (price ` set products))
            else BestMultiple (hd (bestPriceProducts products)) (Min (price ` set products))
                   (length (bestPriceProducts products) - 1) k (tl (bestPriceProducts products))))"
  using assms by (simp add: renderCard_def Let_def bestPrice_Min)

text \<open>
  C6. For a product list that is not empty: the sorted list is the same products in
  ascending order of price; the best-price group is exactly the products at the lowest
  price, in the order the server gave them, and it is not empty; a product above the
  lowest price is not in it. The card of an item whose products these are (found under
  the item's name among the keys of the results) shows the group's first product with
  the lowest price; when the group has more than one product it shows the toggle, whose
  count is the group's size minus one, over the rest of the group, and when the group is
  a single product there is no rest and no toggle. For milk at A and B for 3.50 and at C
  for 4.00 the group is A, B; the card shows A, the count 1 and B behind the toggle, and
  C is in neither.
\<close>

theorem best_price_group:
  "(products \<noteq> [] \<longrightarrow>
      sorted (map price (sortedProducts products)) \<and>
      mset (sortedProducts products) = mset products \<and>
      bestPriceProducts products = filter (\<lambda>p. price p = Min (price ` set products)) products \<and>
      bestPriceProducts products \<noteq> [] \<and>
      (\<forall>p \<in> set products. Min (price ` set products) < price p \<longrightarrow>
         p \<notin> set (bestPriceProducts products)) \<and>
      (lookup_or_empty res (name item) = ProductList products \<or>
       map_of res (name item) = Some products \<longrightarrow>
         renderCard res (item, k) = Inr (ResultCard (name item)
           (if length (bestPriceProducts products) = 1
            then BestSingle (hd (bestPriceProducts products)) (Min (price ` set products))
            else BestMultiple (hd (bestPriceProducts products)) (Min (price ` set products))
                   (length (bestPriceProducts products) - 1) k (tl (bestPriceProducts products)))))) \<and>
   bestPriceProducts [offer ''A'' (7/2), offer ''B'' (7/2), offer ''C'' 4] =
     [offer ''A'' (7/2), offer ''B'' (7/2)] \<and>
   renderCard [(''milk'', [offer ''A'' (7/2), offer ''B'' (7/2), offer ''C'' 4])] (\<lparr>name = ''milk''\<rparr>, 0) =
     Inr (ResultCard ''milk'' (BestMultiple (offer ''A'' (7/2)) (7/2) 1 0 [offer ''B'' (7/2)]))"
proof -
  have ex: "bestPriceProducts [offer ''A'' (7/2), offer ''B'' (7/2), offer ''C'' 4] =
     [offer ''A'' (7/2), offer ''B'' (7/2)]"
    by (simp add: bestPriceProducts_def sortedProducts_def sort_cmp_def byPrice_def offer_def Let_def)
  have ex2: "renderCard [(''milk'', [offer ''A'' (7/2), offer ''B'' (7/2), offer ''C'' 4])] (\<lparr>name = ''milk''\<rparr>, 0) =
     Inr (ResultCard ''milk'' (BestMultiple (offer ''A'' (7/2)) (7/2) 1 0 [offer ''B'' (7/2)]))"
    by (simp add: renderCard_def lookup_or_empty_def getProperty_def ex Let_def)
       (simp add: sortedProducts_def sort_cmp_def byPrice_def offer_def)
  have gen: "p \<notin> set (bestPriceProducts products)"
    if "products \<noteq> []" "Min (price ` set products) < price p" for p
    using that by (simp add: bestPriceProducts_filter)
  have crd: "renderCard res (item, k) = Inr (ResultCard (name item)
           (if length (bestPriceProducts products) = 1
            then BestSingle (hd (bestPriceProducts products)) (Min (price ` set products))
            else BestMultiple (hd (bestPriceProducts products)) (Min (price ` set products))
                   (length (bestPriceProducts products) - 1) k (tl (bestPriceProducts products))))"
    if "products \<noteq> []"
      "lookup_or_empty res (name item) = ProductList products \<or> map_of res (name item) = Some products"
    using that renderCard_nonempty [of res item products k] lookup_own [of res "name item" products]
    by blast
  have srt: "sorted (map price (sortedProducts products))"
    "mset (sortedProducts products) = mset products"
    by (simp_all add: sortedProducts_sort_key)
  show ?thesis
    using ex ex2 gen crd srt bestPriceProducts_filter [of products]
      bestPriceProducts_nonempty [of products]
    by blast
qed

text \<open>
  The offers come C at 4.00, then A, B and D at 3.50, on the fourth card: the lowest
  price is 3.50, C is left out, A is shown, and the toggle counts 2 over B and D.
\<close>

theorem best_price_group_witness:
  "[offer ''C'' 4, offer ''A'' (7/2), offer ''B'' (7/2), offer ''D'' (7/2)] \<noteq> [] \<and>
   offer ''C'' 4 \<in> set [offer ''C'' 4, offer ''A'' (7/2), offer ''B'' (7/2), offer ''D'' (7/2)] \<and>
   Min (price ` set [offer ''C'' 4, offer ''A'' (7/2), offer ''B'' (7/2), offer ''D'' (7/2)]) = 7/2 \<and>
   lookup_or_empty [(''milk'', [offer ''C'' 4, offer ''A'' (7/2), offer ''B'' (7/2), offer ''D'' (7/2)])]
     (name \<lparr>name = ''milk''\<rparr>) =
     ProductList [offer ''C'' 4, offer ''A'' (7/2), offer ''B'' (7/2), offer ''D'' (7/2)] \<and>
   bestPriceProducts [offer ''C'' 4, offer ''A'' (7/2), offer ''B'' (7/2), offer ''D'' (7/2)] =
     [offer ''A'' (7/2), offer ''B'' (7/2), offer ''D'' (7/2)] \<and>
   renderCard [(''milk'', [offer ''C'' 4, offer ''A'' (7/2), offer ''B'' (7/2), offer ''D'' (7/2)])]
     (\<lparr>name = ''milk''\<rparr>, 3) =
     Inr (ResultCard ''milk''
       (BestMultiple (offer ''A'' (7/2)) (7/2) 2 3 [offer ''B'' (7/2), offer ''D'' (7/2)]))"
  using best_price_group [of "[offer ''C'' 4, offer ''A'' (7/2), offer ''B'' (7/2), offer ''D'' (7/2)]"
      "[(''milk'', [offer ''C'' 4, offer ''A'' (7/2), offer ''B'' (7/2), offer ''D'' (7/2)])]"
      "\<lparr>name = ''milk''\<rparr>" 3]
  by (simp add: lookup_or_empty_def getProperty_def offer_def)

lemma not_inherited:
  "k \<notin> {''constructor'', ''hasOwnProperty'', ''isPrototypeOf'', ''propertyIsEnumerable'',
         ''toLocaleString'', ''toString'', ''valueOf'', ''__defineGetter__'',
         ''__defineSetter__'', ''__lookupGetter__'', ''__lookupSetter__'', ''__proto__''} \<Longrightarrow>
   map_of objectPrototype k = None"
  by (simp add: objectPrototype_def)

lemma lookup_plain:
  "map_of res k = None \<Longrightarrow> map_of objectPrototype k = None \<Longrightarrow>
   lookup_or_empty res k = ProductList []"
  by (simp add: lookup_or_empty_def getProperty_def)

lemma bestPriceBody_code:
  "products \<noteq> [] \<Longrightarrow>
   bestPriceBody products k =
     (if length (bestPriceProducts products) = 1
      then BestSingle (hd (bestPriceProducts products)) (Min (price ` set products))
      else BestMultiple (hd (bestPriceProducts products)) (Min (price ` set products))
             (length (bestPriceProducts products) - 1) k (tl (bestPriceProducts products)))"
  by (simp add: bestPriceBody_def Let_def bestPriceProducts_filter)

lemma renderCard_plain:
  assumes "map_of res (name item) = None \<longrightarrow> map_of objectPrototype (name item) = None"
  shows "renderCard res (item, k) =
           Inr (ResultCard (name item) (bestPriceBody (productsUnder res (name item)) k))"
proof (cases "map_of res (name item)")
  case None
  with assms have "lookup_or_empty res (name item) = ProductList []"
    by (simp add: lookup_plain)
  with None show ?thesis
    by (simp add: renderCard_def Let_def productsUnder_def bestPriceBody_def)
next
  case (Some ps)
  then have l: "lookup_or_empty res (name item) = ProductList ps"
    by (rule lookup_own)
  show ?thesis
  proof (cases "ps = []")
    case True
    with l Some show ?thesis
      by (simp add: renderCard_def Let_def productsUnder_def bestPriceBody_def)
  next
    case False
    from renderCard_nonempty [OF l False, of k] Some False show ?thesis
      by (simp add: productsUnder_def bestPriceBody_code)
  qed
qed

lemma renderCards_plain:
  "(\<forall>ci \<in> set rows. map_of res (name (fst ci)) = None \<longrightarrow>
      map_of objectPrototype (name (fst ci)) = None) \<Longrightarrow>
   renderCards res rows table =
     (None, table @ map (\<lambda>ci. ResultCard (name (fst ci))
        (bestPriceBody (productsUnder res (name (fst ci))) (snd ci))) rows)"
proof (induction rows arbitrary: table)
  case Nil
  then show ?case by simp
next
  case (Cons ci rows)
  obtain item k where ci: "ci = (item, k)" by (cases ci)
  from Cons.prems ci
  have here: "map_of res (name item) = None \<longrightarrow> map_of objectPrototype (name item) = None"
    and rest: "\<forall>ci \<in> set rows. map_of res (name (fst ci)) = None \<longrightarrow>
      map_of objectPrototype (name (fst ci)) = None"
    by simp_all
  from renderCard_plain [OF here, of k] Cons.IH [OF rest] ci show ?case
    by simp
qed

lemma page_displayResults:
  "\<exists>table. resultsPage (snd (displayResults data s)) = Some
     \<lparr> itemsFoundCount = length (itemsWithResults (resultsOrEmpty data)),
       zipDisplay = (case zip_code data of
                       None \<Rightarrow> zipCode s
                     | Some z \<Rightarrow> if z = [] then zipCode s else Some z),
       totalItems = length (cart s),
       totalProducts = sum_list (map (\<lambda>k. valueLength (getProperty (resultsOrEmpty data) k))
                          (keys (resultsOrEmpty data))),
       processingTime = (case total_time data of
                           None \<Rightarrow> None
                         | Some t \<Rightarrow> if t = 0 then None else Some t),
       resultsTable = table \<rparr> \<and>
     (fst (displayResults data s), table) =
       renderCards (resultsOrEmpty data) (zip (cart s) [0 ..< length (cart s)]) []"
  by (simp add: displayResults_def Let_def split: prod.splits)

lemma length_itemsWithResults:
  "length (itemsWithResults res) = card {k. \<exists>ps. map_of res k = Some ps \<and> ps \<noteq> []}"
proof -
  have "distinct (itemsWithResults res)"
    by (simp add: itemsWithResults_def keys_def)
  then have "length (itemsWithResults res) = card (set (itemsWithResults res))"
    by (simp add: distinct_card)
  moreover have "set (itemsWithResults res) = {k. \<exists>ps. map_of res k = Some ps \<and> ps \<noteq> []}"
  proof (rule set_eqI)
    fix k
    show "k \<in> set (itemsWithResults res) \<longleftrightarrow> k \<in> {k. \<exists>ps. map_of res k = Some ps \<and> ps \<noteq> []}"
    proof (cases "map_of res k")
      case None
      then have "k \<notin> fst ` set res" by (simp add: map_of_eq_None_iff)
      with None show ?thesis by (simp add: itemsWithResults_def keys_def)
    next
      case (Some ps)
      then have "k \<in> fst ` set res"
        by (metis map_of_eq_None_iff option.distinct(1))
      with Some show ?thesis
        by (simp add: itemsWithResults_def keys_def getProperty_def valueLength_def)
    qed
  qed
  ultimately show ?thesis by simp
qed

lemma bestPriceBody_placeholder: "bestPriceBody ps k = NoProductsFound \<longleftrightarrow> ps = []"
  by (simp add: bestPriceBody_def Let_def)

lemma length_filter_zip:
  assumes "length xs = length ys"
  shows "length (filter (\<lambda>ik. P (fst ik)) (zip xs ys)) = length (filter P xs)"
proof -
  have "length (filter P (map fst (zip xs ys))) = length (filter (\<lambda>ik. P (fst ik)) (zip xs ys))"
    by (simp add: filter_map o_def)
  moreover have "map fst (zip xs ys) = xs"
    using assms by (rule map_fst_zip)
  ultimately show ?thesis by simp
qed

lemma populated_cards:
  "length (filter (\<lambda>c. cardBody c \<noteq> NoProductsFound)
      (map (\<lambda>ci. ResultCard (name (fst ci)) (bestPriceBody (productsUnder res (name (fst ci))) (snd ci)))
         (zip items [0 ..< length items]))) =
   length (filter (\<lambda>item. productsUnder res (name item) \<noteq> []) items)"
proof -
  have "length (filter (\<lambda>c. cardBody c \<noteq> NoProductsFound)
      (map (\<lambda>ci. ResultCard (name (fst ci)) (bestPriceBody (productsUnder res (name (fst ci))) (snd ci)))
         (zip items [0 ..< length items]))) =
      length (filter (\<lambda>ik. productsUnder res (name (fst ik)) \<noteq> []) (zip items [0 ..< length items]))"
    by (simp add: filter_map o_def bestPriceBody_placeholder)
  also have "\<dots> = length (filter (\<lambda>item. productsUnder res (name item) \<noteq> []) items)"
    by (rule length_filter_zip) simp
  finally show ?thesis .
qed

lemma count_cart_items:
  assumes "distinct (map name items)"
  shows "length (filter (\<lambda>item. productsUnder res (name item) \<noteq> []) items) =
         card {k \<in> name ` set items. productsUnder res k \<noteq> []}"
proof -
  let ?Q = "\<lambda>k. productsUnder res k \<noteq> []"
  have d: "distinct (filter ?Q (map name items))"
    using assms by (rule distinct_filter)
  have "length (filter (\<lambda>item. ?Q (name item)) items) = length (filter ?Q (map name items))"
    by (simp add: filter_map o_def)
  also have "\<dots> = card (set (filter ?Q (map name items)))"
    by (rule distinct_card [OF d, symmetric])
  also have "set (filter ?Q (map name items)) = {k \<in> name ` set items. ?Q k}"
    by auto
  finally show ?thesis .
qed

lemma productsUnder_nonempty:
  "productsUnder res k \<noteq> [] \<longleftrightarrow> (\<exists>ps. map_of res k = Some ps \<and> ps \<noteq> [])"
  by (simp add: productsUnder_def split: option.splits)

text \<open>
  C7, as the code has it. \<^verbatim>\<open>displayResults\<close> writes the summary first: the items-found
  count is the number of keys of the results whose product list is not empty, whether
  the cart has them or not, and the total is the cart's length. Then, when every cart
  name that is not a key of the results is none of the names an object inherits from
  \<^verbatim>\<open>Object.prototype\<close>, it returns without an exception and the page has one card per
  cart item, in the cart's order: card \<open>i\<close> carries the name of item \<open>i\<close> and is made from
  the products found under that exact name among the keys of the results, which are no
  products when the name is not a key; it is the placeholder when there are none, and
  else the best-price card of C6. When moreover the cart's names are distinct and every
  key with products is the name of a cart item, the count is the number of cards that
  are not the placeholder.
\<close>

theorem results_view:
  assumes "r = (case results data of None \<Rightarrow> [] | Some x \<Rightarrow> x)"
  shows "\<exists>view. resultsPage (snd (displayResults data s)) = Some view \<and>
     itemsFoundCount view = card {k. \<exists>ps. map_of r k = Some ps \<and> ps \<noteq> []} \<and>
     totalItems view = length (cart s) \<and>
     ((\<forall>item \<in> set (cart s). map_of r (name item) = None \<longrightarrow>
         name item \<notin> {''constructor'', ''hasOwnProperty'', ''isPrototypeOf'',
           ''propertyIsEnumerable'', ''toLocaleString'', ''toString'', ''valueOf'',
           ''__defineGetter__'', ''__defineSetter__'', ''__lookupGetter__'',
           ''__lookupSetter__'', ''__proto__''}) \<longrightarrow>
        fst (displayResults data s) = None \<and>
        length (resultsTable view) = length (cart s) \<and>
        (\<forall>i < length (cart s).
           resultsTable view ! i = ResultCard (name (cart s ! i))
             (let ps = (case map_of r (name (cart s ! i)) of None \<Rightarrow> [] | Some ps \<Rightarrow> ps);
                  m = Min (price ` set ps);
                  best = filter (\<lambda>p. price p = m) ps
              in if ps = [] then NoProductsFound
                 else if length best = 1 then BestSingle (hd best) m
                 else BestMultiple (hd best) m (length best - 1) i (tl best))) \<and>
        (distinct (map name (cart s)) \<and>
         (\<forall>k ps. map_of r k = Some ps \<and> ps \<noteq> [] \<longrightarrow> k \<in> name ` set (cart s)) \<longrightarrow>
           itemsFoundCount view =
             length (filter (\<lambda>c. cardBody c \<noteq> NoProductsFound) (resultsTable view))))"
proof -
  let ?rows = "zip (cart s) [0 ..< length (cart s)]"
  let ?made = "\<lambda>ci. ResultCard (name (fst ci)) (bestPriceBody (productsUnder r (name (fst ci))) (snd ci))"
  have r: "resultsOrEmpty data = r"
    using assms by (simp add: resultsOrEmpty_def)
  from page_displayResults [of data s] obtain table view
    where view: "resultsPage (snd (displayResults data s)) = Some view"
      and cnt: "itemsFoundCount view = length (itemsWithResults r)"
      and tot: "totalItems view = length (cart s)"
      and tab: "resultsTable view = table"
      and run: "(fst (displayResults data s), table) = renderCards r ?rows []"
    unfolding r by force
  have count: "itemsFoundCount view = card {k. \<exists>ps. map_of r k = Some ps \<and> ps \<noteq> []}"
    using cnt by (simp only: length_itemsWithResults)
  have plain: "fst (displayResults data s) = None \<and>
      length (resultsTable view) = length (cart s) \<and>
      (\<forall>i < length (cart s).
         resultsTable view ! i = ResultCard (name (cart s ! i))
             (let ps = (case map_of r (name (cart s ! i)) of None \<Rightarrow> [] | Some ps \<Rightarrow> ps);
                  m = Min (price ` set ps);
                  best = filter (\<lambda>p. price p = m) ps
              in if ps = [] then NoProductsFound
                 else if length best = 1 then BestSingle (hd best) m
                 else BestMultiple (hd best) m (length best - 1) i (tl best))) \<and>
      (distinct (map name (cart s)) \<and>
       (\<forall>k ps. map_of r k = Some ps \<and> ps \<noteq> [] \<longrightarrow> k \<in> name ` set (cart s)) \<longrightarrow>
         itemsFoundCount view =
           length (filter (\<lambda>c. cardBody c \<noteq> NoProductsFound) (resultsTable view)))"
    if h: "\<forall>item \<in> set (cart s). map_of r (name item) = None \<longrightarrow>
         name item \<notin> {''constructor'', ''hasOwnProperty'', ''isPrototypeOf'',
           ''propertyIsEnumerable'', ''toLocaleString'', ''toString'', ''valueOf'',
           ''__defineGetter__'', ''__defineSetter__'', ''__lookupGetter__'',
           ''__lookupSetter__'', ''__proto__''}"
  proof -
    have "\<forall>ci \<in> set ?rows. map_of r (name (fst ci)) = None \<longrightarrow>
        map_of objectPrototype (name (fst ci)) = None"
    proof
      fix ci assume "ci \<in> set ?rows"
      then have "fst ci \<in> set (cart s)"
        by (metis prod.collapse set_zip_leftD)
      with h show "map_of r (name (fst ci)) = None \<longrightarrow> map_of objectPrototype (name (fst ci)) = None"
        using not_inherited by blast
    qed
    from renderCards_plain [OF this, of "[]"] run
    have ok: "fst (displayResults data s) = None" and table: "table = map ?made ?rows"
      by simp_all
    have len: "length (resultsTable view) = length (cart s)"
      using tab table by simp
    have nth: "resultsTable view ! i = ResultCard (name (cart s ! i))
             (let ps = (case map_of r (name (cart s ! i)) of None \<Rightarrow> [] | Some ps \<Rightarrow> ps);
                  m = Min (price ` set ps);
                  best = filter (\<lambda>p. price p = m) ps
              in if ps = [] then NoProductsFound
                 else if length best = 1 then BestSingle (hd best) m
                 else BestMultiple (hd best) m (length best - 1) i (tl best))"
      if "i < length (cart s)" for i
      using that tab table by (simp add: bestPriceBody_def productsUnder_def Let_def)
    have pop: "itemsFoundCount view =
        length (filter (\<lambda>c. cardBody c \<noteq> NoProductsFound) (resultsTable view))"
      if d: "distinct (map name (cart s))"
        and sub: "\<forall>k ps. map_of r k = Some ps \<and> ps \<noteq> [] \<longrightarrow> k \<in> name ` set (cart s)"
    proof -
      have "{k. \<exists>ps. map_of r k = Some ps \<and> ps \<noteq> []} =
            {k \<in> name ` set (cart s). productsUnder r k \<noteq> []}"
        using sub by (auto simp: productsUnder_nonempty)
      then have "card {k. \<exists>ps. map_of r k = Some ps \<and> ps \<noteq> []} =
            card {k \<in> name ` set (cart s). productsUnder r k \<noteq> []}"
        by (simp only:)
      also have "\<dots> = length (filter (\<lambda>item. productsUnder r (name item) \<noteq> []) (cart s))"
        by (rule count_cart_items [OF d, symmetric])
      also have "\<dots> = length (filter (\<lambda>c. cardBody c \<noteq> NoProductsFound) (map ?made ?rows))"
        by (rule populated_cards [symmetric])
      finally show ?thesis
        using count tab table by (simp only:)
    qed
    from ok len nth pop show ?thesis by blast
  qed
  from view count tot plain show ?thesis by blast
qed

lemmas page_defs = displayResults_def resultsOrEmpty_def completeWith_def cartOf_def
  addToCart_def showToast_def initial_def MAX_ITEMS_def keys_def itemsWithResults_def
  valueLength_def getProperty_def lookup_or_empty_def objectPrototype_def renderCard_def
  bestPriceProducts_def sortedProducts_def sort_cmp_def byPrice_def offer_def Let_def

lemma example_milk_eggs:
  "displayResults (completeWith (Some [(''milk'', [offer ''A'' (7/2)])])) (cartOf [''milk'', ''eggs'']) =
     (None, (cartOf [''milk'', ''eggs''])\<lparr>resultsPage := Some
       \<lparr> itemsFoundCount = 1, zipDisplay = None, totalItems = 2, totalProducts = 1,
         processingTime = None,
         resultsTable = [ResultCard ''milk'' (BestSingle (offer ''A'' (7/2)) (7/2)),
                         ResultCard ''eggs'' NoProductsFound] \<rparr>\<rparr>)"
  by (simp add: page_defs upt_rec)

lemma example_three:
  "displayResults (completeWith (Some [(''bread'', []),
       (''milk'', [offer ''C'' 4, offer ''A'' (7/2), offer ''B'' (7/2)])]))
     (cartOf [''milk'', ''eggs'', ''bread'']) =
     (None, (cartOf [''milk'', ''eggs'', ''bread''])\<lparr>resultsPage := Some
       \<lparr> itemsFoundCount = 1, zipDisplay = None, totalItems = 3, totalProducts = 3,
         processingTime = None,
         resultsTable = [ResultCard ''milk'' (BestMultiple (offer ''A'' (7/2)) (7/2) 1 0 [offer ''B'' (7/2)]),
                         ResultCard ''eggs'' NoProductsFound,
                         ResultCard ''bread'' NoProductsFound] \<rparr>\<rparr>)"
  by (simp add: page_defs upt_rec)

text \<open>
  The cart holds milk, eggs and bread; the results have bread with no products and milk
  at C for 4.00 and at A and B for 3.50. And the cart holds milk and eggs and the
  results have milk only: a card for milk with its product, the placeholder for eggs, one
  item found of two.
\<close>

theorem results_view_witness:
  "map name (cart (cartOf [''milk'', ''eggs'', ''bread''])) = [''milk'', ''eggs'', ''bread''] \<and>
   displayResults (completeWith (Some [(''bread'', []),
       (''milk'', [offer ''C'' 4, offer ''A'' (7/2), offer ''B'' (7/2)])]))
     (cartOf [''milk'', ''eggs'', ''bread'']) =
     (None, (cartOf [''milk'', ''eggs'', ''bread''])\<lparr>resultsPage := Some
       \<lparr> itemsFoundCount = 1, zipDisplay = None, totalItems = 3, totalProducts = 3,
         processingTime = None,
         resultsTable = [ResultCard ''milk'' (BestMultiple (offer ''A'' (7/2)) (7/2) 1 0 [offer ''B'' (7/2)]),
                         ResultCard ''eggs'' NoProductsFound,
                         ResultCard ''bread'' NoProductsFound] \<rparr>\<rparr>) \<and>
   displayResults (completeWith (Some [(''milk'', [offer ''A'' (7/2)])])) (cartOf [''milk'', ''eggs'']) =
     (None, (cartOf [''milk'', ''eggs''])\<lparr>resultsPage := Some
       \<lparr> itemsFoundCount = 1, zipDisplay = None, totalItems = 2, totalProducts = 1,
         processingTime = None,
         resultsTable = [ResultCard ''milk'' (BestSingle (offer ''A'' (7/2)) (7/2)),
                         ResultCard ''eggs'' NoProductsFound] \<rparr>\<rparr>) \<and>
   (\<exists>view. resultsPage (snd (displayResults (completeWith (Some [(''bread'', []),
         (''milk'', [offer ''C'' 4, offer ''A'' (7/2), offer ''B'' (7/2)])]))
       (cartOf [''milk'', ''eggs'', ''bread'']))) = Some view \<and>
      itemsFoundCount view = length (filter (\<lambda>c. cardBody c \<noteq> NoProductsFound) (resultsTable view)))"
proof -
  let ?r = "[(''bread'', []), (''milk'', [offer ''C'' 4, offer ''A'' (7/2), offer ''B'' (7/2)])]"
  let ?data = "completeWith (Some ?r)"
  let ?s = "cartOf [''milk'', ''eggs'', ''bread'']"
  have crt: "cart ?s = [\<lparr>name = ''milk''\<rparr>, \<lparr>name = ''eggs''\<rparr>, \<lparr>name = ''bread''\<rparr>]"
    by (simp add: cartOf_def addToCart_def showToast_def initial_def MAX_ITEMS_def)
  have r: "?r = (case results ?data of None \<Rightarrow> [] | Some x \<Rightarrow> x)"
    by (simp add: completeWith_def)
  have h: "\<forall>item \<in> set (cart ?s). map_of ?r (name item) = None \<longrightarrow>
         name item \<notin> {''constructor'', ''hasOwnProperty'', ''isPrototypeOf'',
           ''propertyIsEnumerable'', ''toLocaleString'', ''toString'', ''valueOf'',
           ''__defineGetter__'', ''__defineSetter__'', ''__lookupGetter__'',
           ''__lookupSetter__'', ''__proto__''}"
    by (simp add: crt)
  have d: "distinct (map name (cart ?s))"
    by (simp add: crt)
  have sub: "\<forall>k ps. map_of ?r k = Some ps \<and> ps \<noteq> [] \<longrightarrow> k \<in> name ` set (cart ?s)"
    by (simp add: crt)
  from results_view [OF r, of ?s] h d sub
  have "\<exists>view. resultsPage (snd (displayResults ?data ?s)) = Some view \<and>
      itemsFoundCount view = length (filter (\<lambda>c. cardBody c \<noteq> NoProductsFound) (resultsTable view))"
    by blast
  then show ?thesis
    using example_three example_milk_eggs crt by simp
qed

text \<open>
  C7 as stated fails. With milk alone in the cart and results for milk and for eggs, the
  page has the one card for milk and the count is 2. With an item named constructor in
  the cart and no results, the lookup finds the function every object inherits under
  that name, \<^verbatim>\<open>displayResults\<close> throws, and the poll ends in its \<^verbatim>\<open>catch\<close>: step 2 and the
  error toast.
\<close>

theorem results_view_counterexample:
  "displayResults (completeWith (Some [(''milk'', [offer ''A'' (7/2)]), (''eggs'', [offer ''B'' 2])]))
     (cartOf [''milk'']) =
     (None, (cartOf [''milk''])\<lparr>resultsPage := Some
       \<lparr> itemsFoundCount = 2, zipDisplay = None, totalItems = 1, totalProducts = 2,
         processingTime = None,
         resultsTable = [ResultCard ''milk'' (BestSingle (offer ''A'' (7/2)) (7/2))] \<rparr>\<rparr>) \<and>
   fst (displayResults (completeWith None) (cartOf [''constructor''])) = Some TypeError \<and>
   currentStep (pollResults_resolve (Ok (completeWith None)) (cartOf [''constructor''])) = 2 \<and>
   toasts (pollResults_resolve (Ok (completeWith None)) (cartOf [''constructor''])) =
     [''Added to cart!'', ''Error fetching results. Please try again.'']"
  by (simp add: page_defs pollResults_resolve_def pollResults_catch_def clearInterval_def
      goToStep_def upt_rec)

end
